theory Spec2Isabelle
  imports Complex_Main "HOL-Library.Word"
begin

section \<open>JavaScript strings\<close>

text \<open>
  A JavaScript string is a finite sequence of UTF-16 code units. Every character that
  \<^verbatim>\<open>server.js\<close> names lies in the Basic Multilingual Plane, so each is one code unit.
  \<open>str\<close> turns an ASCII literal into its code units; characters beyond ASCII are written
  as their code points (\<open>0x222B\<close> is the integral sign).
\<close>

type_synonym codeunit = "16 word"
type_synonym jsstring = "codeunit list"

definition str :: "string \<Rightarrow> jsstring" where
  "str s = map of_char s"

text \<open>\<^verbatim>\<open>s.startsWith(p)\<close> and \<^verbatim>\<open>s.includes(p)\<close>: \<open>p\<close> occurs at the front of \<open>s\<close>,
  respectively somewhere in \<open>s\<close>, as a contiguous run of code units.\<close>

fun startsWith :: "jsstring \<Rightarrow> jsstring \<Rightarrow> bool" where
  "startsWith s [] = True"
| "startsWith [] (p # ps) = False"
| "startsWith (c # cs) (p # ps) = (c = p \<and> startsWith cs ps)"

fun includes_str :: "jsstring \<Rightarrow> jsstring \<Rightarrow> bool" where
  "includes_str [] p = startsWith [] p"
| "includes_str (c # cs) p = (startsWith (c # cs) p \<or> includes_str cs p)"

text \<open>
  \<^verbatim>\<open>s.toLowerCase()\<close>. The model maps the code units whose lower case is made of ASCII
  letters: \<open>A\<close> to \<open>Z\<close>, U+0130 (capital I with dot above, which becomes \<open>i\<close> followed by
  U+0307) and U+212A (the Kelvin sign, which becomes \<open>k\<close>). Every other code unit is
  carried over as it is. An engine also maps other upper-case letters (Greek, Cyrillic,
  accented Latin) to their lower-case forms; those forms are never ASCII and never
  U+222B, which are the only code units \<open>classifyMathQuestion\<close> looks for in the
  lower-cased text.
\<close>

definition lowerUnit :: "codeunit \<Rightarrow> jsstring" where
  "lowerUnit c =
     (if 0x41 \<le> c \<and> c \<le> 0x5A then [c + 0x20]
      else if c = 0x130 then [0x69, 0x307]
      else if c = 0x212A then [0x6B]
      else [c])"

definition toLowerCase :: "jsstring \<Rightarrow> jsstring" where
  "toLowerCase s = concat (map lowerUnit s)"

section \<open>The regular expressions of \<open>classifyMathQuestion\<close>\<close>

text \<open>
  \<^verbatim>\<open>/[\d+\-*/=()...]/.test(question)\<close>, where the class ends with the five characters
  U+00B2, U+00B3 (superscript two and three), U+221A (square root), U+222B (integral)
  and U+2211 (summation): some code unit of the text is a digit or one of the listed
  characters.
\<close>

definition isDigit :: "codeunit \<Rightarrow> bool" where
  "isDigit c = (0x30 \<le> c \<and> c \<le> 0x39)"

definition isExpressionChar :: "codeunit \<Rightarrow> bool" where
  "isExpressionChar c =
     (isDigit c \<or> c \<in> set (str ''+-*/=()'' @ [0xB2, 0xB3, 0x221A, 0x222B, 0x2211]))"

definition hasMathExpression :: "jsstring \<Rightarrow> bool" where
  "hasMathExpression question = list_ex isExpressionChar question"

text \<open>
  \<^verbatim>\<open>/[a-z]\s*[=+\-*/]|[=+\-*/]\s*[a-z]|\b(x|y|z|a|b|c|n|m|t)\b/i.test(question)\<close>.
  The flag \<open>i\<close> without the flag \<open>u\<close> compares characters after upper-casing them, and
  never lets a character beyond ASCII stand for an ASCII one: \<open>[a-z]\<close> matches exactly
  the ASCII letters of both cases. \<open>\s\<close> is the white space and line terminators of
  ECMAScript; \<open>\b\<close> is a position between a word character (\<open>[A-Za-z0-9_]\<close>) and
  anything else, or the start or end of the text.
\<close>

definition isAsciiLetter :: "codeunit \<Rightarrow> bool" where
  "isAsciiLetter c = ((0x41 \<le> c \<and> c \<le> 0x5A) \<or> (0x61 \<le> c \<and> c \<le> 0x7A))"

definition isSpace :: "codeunit \<Rightarrow> bool" where
  "isSpace c =
     (c \<in> set [0x09, 0x0A, 0x0B, 0x0C, 0x0D, 0x20, 0xA0, 0x1680, 0x2028, 0x2029,
                0x202F, 0x205F, 0x3000, 0xFEFF]
      \<or> (0x2000 \<le> c \<and> c \<le> 0x200A))"

definition isOperator :: "codeunit \<Rightarrow> bool" where
  "isOperator c = (c \<in> set (str ''=+-*/''))"

definition isWordChar :: "codeunit \<Rightarrow> bool" where
  "isWordChar c = (isAsciiLetter c \<or> isDigit c \<or> c = 0x5F)"

definition isVariableName :: "codeunit \<Rightarrow> bool" where
  "isVariableName c = (c \<in> set (str ''xyzabcnmt'' @ str ''XYZABCNMT''))"

text \<open>A pattern tried at every position of the text, the last one being its end.\<close>

fun existsAt :: "(jsstring \<Rightarrow> bool) \<Rightarrow> jsstring \<Rightarrow> bool" where
  "existsAt P [] = P []"
| "existsAt P (c # cs) = (P (c # cs) \<or> existsAt P cs)"

text \<open>\<open>[a-z]\s*[=+\-*/]\<close> and \<open>[=+\-*/]\s*[a-z]\<close> at the front of a text. No white space
  is an operator or a letter, so the only way \<open>\s*\<close> can be followed by a match is
  to take all the white space there is.\<close>

definition letterThenOperator :: "jsstring \<Rightarrow> bool" where
  "letterThenOperator s =
     (case s of [] \<Rightarrow> False
      | c # rest \<Rightarrow> isAsciiLetter c \<and>
          (case dropWhile isSpace rest of [] \<Rightarrow> False | d # _ \<Rightarrow> isOperator d))"

definition operatorThenLetter :: "jsstring \<Rightarrow> bool" where
  "operatorThenLetter s =
     (case s of [] \<Rightarrow> False
      | c # rest \<Rightarrow> isOperator c \<and>
          (case dropWhile isSpace rest of [] \<Rightarrow> False | d # _ \<Rightarrow> isAsciiLetter d))"

text \<open>\<open>\b(x|y|z|a|b|c|n|m|t)\b\<close>: one of the nine letters with no word character on
  either side. The flag says whether the code unit before the text is a word character.\<close>

fun standaloneVariable :: "bool \<Rightarrow> jsstring \<Rightarrow> bool" where
  "standaloneVariable afterWord [] = False"
| "standaloneVariable afterWord (c # cs) =
     (if \<not> afterWord \<and> isVariableName c \<and> (case cs of [] \<Rightarrow> True | d # _ \<Rightarrow> \<not> isWordChar d)
      then True
      else standaloneVariable (isWordChar c) cs)"

definition hasVariables :: "jsstring \<Rightarrow> bool" where
  "hasVariables question =
     (existsAt letterThenOperator question \<or> existsAt operatorThenLetter question
      \<or> standaloneVariable False question)"

section \<open>\<open>classifyMathQuestion\<close>\<close>

definition mathKeywords :: "jsstring list" where
  "mathKeywords = map str
     [''solve'', ''calculate'', ''find'', ''compute'', ''evaluate'', ''simplify'',
      ''equation'', ''inequality'', ''derivative'', ''integral'', ''limit'', ''matrix'',
      ''polynomial'', ''quadratic'', ''linear'', ''trigonometry'', ''geometry'',
      ''algebra'', ''calculus'', ''statistics'', ''probability'', ''fraction'',
      ''percentage'', ''ratio'', ''proportion'', ''area'', ''volume'', ''perimeter'',
      ''angle'', ''triangle'', ''circle'', ''square'', ''rectangle'', ''graph'',
      ''function'', ''logarithm'', ''exponential'', ''sin'', ''cos'', ''tan'']"

text \<open>The symbols beyond ASCII, in the order of the source: not equal, less or equal,
  greater or equal, square root, superscript two and three; integral, summation, pi,
  infinity, theta, alpha, beta, gamma, capital delta, partial derivative, nabla.\<close>

definition mathSymbols :: "jsstring list" where
  "mathSymbols =
     [str ''+'', str ''-'', str ''*'', str ''/'', str ''='', [0x2260], str ''<'', str ''>'',
      [0x2264], [0x2265], [0x221A], [0xB2], [0xB3],
      [0x222B], [0x2211], [0x3C0], [0x221E], [0x3B8], [0x3B1], [0x3B2], [0x3B3], [0x394],
      [0x2202], [0x2207]]"

text \<open>\<^verbatim>\<open>mathKeywords.some(keyword => q.includes(keyword))\<close>, on the lower-cased text, and
  \<^verbatim>\<open>mathSymbols.some(symbol => question.includes(symbol))\<close>, on the text as given.\<close>

definition hasMathKeyword :: "jsstring \<Rightarrow> bool" where
  "hasMathKeyword q = list_ex (\<lambda>keyword. includes_str q keyword) mathKeywords"

definition hasMathSymbol :: "jsstring \<Rightarrow> bool" where
  "hasMathSymbol question = list_ex (\<lambda>symbol. includes_str question symbol) mathSymbols"

definition classifyMathQuestion :: "jsstring \<Rightarrow> jsstring" where
  "classifyMathQuestion question =
     (let q = toLowerCase question in
      if hasMathKeyword q \<or> hasMathSymbol question
         \<or> (hasMathExpression question \<and> hasVariables question)
      then
        if includes_str q [0x222B] \<or> includes_str q (str ''integrate'')
           \<or> includes_str q (str ''integration'')
        then str ''integrals''
        else if includes_str q (str ''derivative'') \<or> includes_str q (str ''differentiate'')
           \<or> includes_str q (str ''d/dx'')
        then str ''calculus''
        else if includes_str q (str ''matrix'') \<or> includes_str q (str ''determinant'')
        then str ''linear_algebra''
        else if includes_str q (str ''trig'') \<or> includes_str q (str ''sin'')
           \<or> includes_str q (str ''cos'') \<or> includes_str q (str ''tan'')
        then str ''trigonometry''
        else if includes_str q (str ''geometry'') \<or> includes_str q (str ''area'')
           \<or> includes_str q (str ''volume'') \<or> includes_str q (str ''perimeter'')
        then str ''geometry''
        else if includes_str q (str ''probability'') \<or> includes_str q (str ''statistics'')
        then str ''statistics''
        else str ''math''
      else str ''unknown'')"

text \<open>The eight strings that a \<^verbatim>\<open>return\<close> of \<open>classifyMathQuestion\<close> names.\<close>

definition classificationTags :: "jsstring list" where
  "classificationTags = map str
     [''integrals'', ''calculus'', ''linear_algebra'', ''trigonometry'', ''geometry'',
      ''statistics'', ''math'', ''unknown'']"

subsection \<open>The priority rules as the specification words them\<close>

text \<open>
  The specification gives the sub-domain rules as an ordered list of pairs of trigger
  substrings and a tag, read from the top, the first rule with a trigger in the
  lower-cased text giving the tag, and \<^verbatim>\<open>math\<close> when no rule has one. These two
  definitions follow those words; \<open>classifyMathQuestion\<close> above follows the source.
\<close>

definition spec_priorityRules :: "(jsstring list \<times> jsstring) list" where
  "spec_priorityRules =
     [([[0x222B], str ''integrate'', str ''integration''], str ''integrals''),
      ([str ''derivative'', str ''differentiate'', str ''d/dx''], str ''calculus''),
      ([str ''matrix'', str ''determinant''], str ''linear_algebra''),
      ([str ''trig'', str ''sin'', str ''cos'', str ''tan''], str ''trigonometry''),
      ([str ''geometry'', str ''area'', str ''volume'', str ''perimeter''], str ''geometry''),
      ([str ''probability'', str ''statistics''], str ''statistics'')]"

fun spec_firstMatch :: "jsstring \<Rightarrow> (jsstring list \<times> jsstring) list \<Rightarrow> jsstring" where
  "spec_firstMatch q [] = str ''math''"
| "spec_firstMatch q ((triggers, tag) # rules) =
     (if list_ex (\<lambda>trigger. includes_str q trigger) triggers then tag
      else spec_firstMatch q rules)"

text \<open>The tag that goes with a keyword is the one the rules give to the keyword on its
  own; the triggers of higher priority are those of the rules above the first rule that
  the keyword triggers (all of them when it triggers none).\<close>

definition keywordTag :: "jsstring \<Rightarrow> jsstring" where
  "keywordTag keyword = spec_firstMatch keyword spec_priorityRules"

fun higherPriorityTriggers :: "jsstring \<Rightarrow> (jsstring list \<times> jsstring) list \<Rightarrow> jsstring list" where
  "higherPriorityTriggers keyword [] = []"
| "higherPriorityTriggers keyword ((triggers, tag) # rules) =
     (if list_ex (\<lambda>trigger. includes_str keyword trigger) triggers then []
      else triggers @ higherPriorityTriggers keyword rules)"

section \<open>JavaScript values, requests and responses\<close>

text \<open>
  The values that a parsed request body and a JSON response are made of. A number is a
  rational (every finite double is one, and \<open>-0\<close> is \<open>0\<close>); an object is the list of
  its own properties, looked up from the front.
\<close>

datatype jsvalue =
    JUndefined
  | JNull
  | JBool bool
  | JNumber rat
  | JString jsstring
  | JObject "(jsstring \<times> jsvalue) list"
  | JArray "jsvalue list"

text \<open>\<open>truthy v\<close> is what \<^verbatim>\<open>if (v)\<close> tests, and \<^verbatim>\<open>!v\<close> negates.\<close>

fun truthy :: "jsvalue \<Rightarrow> bool" where
  "truthy JUndefined = False"
| "truthy JNull = False"
| "truthy (JBool b) = b"
| "truthy (JNumber r) = (r \<noteq> 0)"
| "truthy (JString s) = (s \<noteq> [])"
| "truthy (JObject props) = True"
| "truthy (JArray items) = True"

text \<open>\<^verbatim>\<open>v.name\<close> for the two names that the handler reads, \<^verbatim>\<open>question\<close> and \<^verbatim>\<open>language\<close>,
  which only an object can have. Reading a property of \<^verbatim>\<open>undefined\<close> or \<^verbatim>\<open>null\<close>
  throws; the handlers test for that before they call \<open>getProp\<close>.\<close>

fun getProp :: "jsvalue \<Rightarrow> jsstring \<Rightarrow> jsvalue" where
  "getProp (JObject props) name =
     (case map_of props name of None \<Rightarrow> JUndefined | Some v \<Rightarrow> v)"
| "getProp v name = JUndefined"

text \<open>\<^verbatim>\<open>v || d\<close>, and the properties that \<^verbatim>\<open>{...v}\<close> copies from what a resolver
  returns (an object, or nothing).\<close>

definition orElse :: "jsvalue \<Rightarrow> jsvalue \<Rightarrow> jsvalue" where
  "orElse v d = (if truthy v then v else d)"

fun spread :: "jsvalue \<Rightarrow> (jsstring \<times> jsvalue) list" where
  "spread (JObject props) = props"
| "spread v = []"

fun setProp :: "(jsstring \<times> jsvalue) list \<Rightarrow> jsstring \<Rightarrow> jsvalue \<Rightarrow> (jsstring \<times> jsvalue) list" where
  "setProp [] name v = [(name, v)]"
| "setProp ((n, w) # props) name v =
     (if n = name then (n, v) # props else (n, w) # setProp props name v)"

text \<open>
  An awaited call can throw any value, \<^verbatim>\<open>undefined\<close> and \<^verbatim>\<open>null\<close> included. What
  \<^verbatim>\<open>new Error(m)\<close> makes is an object whose \<^verbatim>\<open>message\<close> is \<open>m\<close>. \<open>readProp\<close> is a
  property read where the source does not guard it, \<^verbatim>\<open>error.message\<close> in the \<^verbatim>\<open>catch\<close>
  blocks: on \<^verbatim>\<open>undefined\<close> and \<^verbatim>\<open>null\<close> the read itself throws a \<^verbatim>\<open>TypeError\<close>, whose
  wording is the engine's.
\<close>

definition newError :: "jsstring \<Rightarrow> jsvalue" where
  "newError m = JObject [(str ''message'', JString m)]"

definition readProp :: "jsvalue \<Rightarrow> jsstring \<Rightarrow> jsvalue + jsvalue" where
  "readProp v name =
     (if v = JUndefined \<or> v = JNull
      then Inl (newError (str ''Cannot read properties of undefined or null''))
      else Inr (getProp v name))"

record response =
  status :: nat
  payload :: jsvalue

text \<open>
  \<^verbatim>\<open>resolveQuery\<close> is imported from \<^verbatim>\<open>queryResolver.js\<close>; the handlers take it as a
  parameter. It is asynchronous: awaiting it gives a value (\<open>Inr\<close>) or throws one
  (\<open>Inl\<close>). A call is recorded with its two arguments, the question and the options
  object.
\<close>

type_synonym resolver = "jsvalue \<Rightarrow> jsvalue \<Rightarrow> jsvalue + jsvalue"
type_synonym call = "jsvalue \<times> jsvalue"

section \<open>The handler of \<^verbatim>\<open>POST /ask\<close>\<close>

text \<open>
  The handler is a \<^verbatim>\<open>try\<close> block and its \<^verbatim>\<open>catch\<close>. \<open>ask_try\<close> is the \<^verbatim>\<open>try\<close> block:
  \<open>Inr\<close> is the response it sends, \<open>Inl\<close> what it throws, and the list holds the calls of
  \<^verbatim>\<open>resolveQuery\<close> made on the way. Destructuring \<^verbatim>\<open>req.body\<close> throws a \<^verbatim>\<open>TypeError\<close>
  when the body is \<^verbatim>\<open>undefined\<close> or \<^verbatim>\<open>null\<close>; the wording of its message is the engine's.
  \<open>ask\<close> is the whole handler. Its \<^verbatim>\<open>catch\<close> block first reads \<^verbatim>\<open>error.message\<close> for the
  line it writes to the console, and then sends the response; when that read throws,
  nothing is sent and the exception leaves the handler, which is the outcome \<open>Inl\<close> of
  \<open>ask\<close>. The console line itself is not recorded.
\<close>

definition destructureError :: jsvalue where
  "destructureError = newError (str ''Cannot destructure property of undefined or null'')"

definition ask_try :: "resolver \<Rightarrow> jsvalue \<Rightarrow> (jsvalue + response) \<times> call list" where
  "ask_try resolveQuery body =
     (if body = JUndefined \<or> body = JNull then (Inl destructureError, [])
      else
        let question = getProp body (str ''question'');
            language = getProp body (str ''language'')
        in
          if \<not> truthy question
          then (Inr \<lparr>status = 400,
                     payload = JObject [(str ''success'', JBool False),
                                        (str ''error'', JString (str ''Question is required''))]\<rparr>,
                [])
          else
            let options = JObject [(str ''language'', language)] in
            (case resolveQuery question options of
               Inl error \<Rightarrow> (Inl error, [(question, options)])
             | Inr result \<Rightarrow> (Inr \<lparr>status = 200, payload = result\<rparr>, [(question, options)])))"

definition ask :: "resolver \<Rightarrow> jsvalue \<Rightarrow> (jsvalue + response) \<times> call list" where
  "ask resolveQuery body =
     (case ask_try resolveQuery body of
        (Inr sent, calls) \<Rightarrow> (Inr sent, calls)
      | (Inl error, calls) \<Rightarrow>
          (case readProp error (str ''message'') of
             Inl typeError \<Rightarrow> (Inl typeError, calls)
           | Inr logged \<Rightarrow>
               (Inr \<lparr>status = 500,
                     payload = JObject
                       [(str ''success'', JBool False),
                        (str ''error'', JString (str ''Internal server error'')),
                        (str ''message'',
                         JString
                           (str ''An unexpected error occurred. Please try again later.''))]\<rparr>,
                calls)))"

section \<open>The handler of \<^verbatim>\<open>POST /ask/image\<close>\<close>

text \<open>
  The uploaded file is on disk under \<^verbatim>\<open>req.file.path\<close>. The file system is a map from
  paths to contents: reading or unlinking a path that is not there throws, unlinking
  one that is there removes it. \<^verbatim>\<open>imageToBase64\<close> and \<^verbatim>\<open>processImage\<close> are imported from
  \<^verbatim>\<open>imageProcessor.js\<close> and are parameters, as \<^verbatim>\<open>resolveQuery\<close> is; the result of
  \<^verbatim>\<open>processImage\<close> has the properties \<^verbatim>\<open>success\<close>, \<^verbatim>\<open>text\<close> and \<^verbatim>\<open>error\<close>. The
  \<^verbatim>\<open>catch\<close> block reads \<^verbatim>\<open>error.message\<close> for the console, removes the upload if it is
  still there, and sends the message it read.
\<close>

record upload =
  path :: jsstring
  mimetype :: jsstring

record imageResult =
  imageSuccess :: bool
  imageText :: jsstring
  imageError :: jsvalue

type_synonym buffer = "8 word list"
type_synonym filesystem = "jsstring \<rightharpoonup> buffer"

definition readFileSync :: "filesystem \<Rightarrow> jsstring \<Rightarrow> jsvalue + buffer" where
  "readFileSync fs p =
     (case fs p of None \<Rightarrow> Inl (newError (str ''ENOENT: no such file or directory''))
      | Some contents \<Rightarrow> Inr contents)"

definition unlinkSync :: "filesystem \<Rightarrow> jsstring \<Rightarrow> jsvalue + filesystem" where
  "unlinkSync fs p =
     (case fs p of None \<Rightarrow> Inl (newError (str ''ENOENT: no such file or directory''))
      | Some contents \<Rightarrow> Inr (fs(p := None)))"

definition existsSync :: "filesystem \<Rightarrow> jsstring \<Rightarrow> bool" where
  "existsSync fs p = (fs p \<noteq> None)"

definition imageContext :: "jsstring \<Rightarrow> jsstring" where
  "imageContext extractedText =
     str ''This question was extracted from an image. Original extracted text: ''
       @ extractedText"

definition askImage_try ::
  "(buffer \<Rightarrow> jsstring \<Rightarrow> jsstring) \<Rightarrow> (jsstring \<Rightarrow> jsstring \<Rightarrow> jsvalue + imageResult) \<Rightarrow>
   resolver \<Rightarrow> filesystem \<Rightarrow> upload option \<Rightarrow>
   (jsvalue + response) \<times> filesystem \<times> call list" where
  "askImage_try imageToBase64 processImage resolveQuery fs file =
     (case file of
        None \<Rightarrow>
          (Inr \<lparr>status = 400,
                payload = JObject [(str ''success'', JBool False),
                                   (str ''error'', JString (str ''Image file is required''))]\<rparr>,
           fs, [])
      | Some f \<Rightarrow>
          (case readFileSync fs (path f) of
             Inl error \<Rightarrow> (Inl error, fs, [])
           | Inr imageBuffer \<Rightarrow>
               let imageBase64 = imageToBase64 imageBuffer (mimetype f) in
               (case processImage imageBase64 (mimetype f) of
                  Inl error \<Rightarrow> (Inl error, fs, [])
                | Inr imageResult \<Rightarrow>
                    (case unlinkSync fs (path f) of
                       Inl error \<Rightarrow> (Inl error, fs, [])
                     | Inr fs' \<Rightarrow>
                         if \<not> imageSuccess imageResult
                         then
                           (Inr \<lparr>status = 400,
                                 payload = JObject
                                   [(str ''success'', JBool False),
                                    (str ''error'',
                                     orElse (imageError imageResult)
                                       (JString (str ''Failed to process image'')))]\<rparr>,
                            fs', [])
                         else
                           let extractedText = imageText imageResult;
                               options = JObject
                                 [(str ''context'', JString (imageContext extractedText))]
                           in
                           (case resolveQuery (JString extractedText) options of
                              Inl error \<Rightarrow> (Inl error, fs', [(JString extractedText, options)])
                            | Inr result \<Rightarrow>
                                (Inr \<lparr>status = 200,
                                      payload = JObject
                                        (setProp
                                          (setProp (spread result) (str ''extractedText'')
                                             (JString extractedText))
                                          (str ''source'') (JString (str ''image'')))\<rparr>,
                                 fs', [(JString extractedText, options)]))))))"

definition askImage ::
  "(buffer \<Rightarrow> jsstring \<Rightarrow> jsstring) \<Rightarrow> (jsstring \<Rightarrow> jsstring \<Rightarrow> jsvalue + imageResult) \<Rightarrow>
   resolver \<Rightarrow> filesystem \<Rightarrow> upload option \<Rightarrow>
   (jsvalue + response) \<times> filesystem \<times> call list" where
  "askImage imageToBase64 processImage resolveQuery fs file =
     (case askImage_try imageToBase64 processImage resolveQuery fs file of
        (Inr sent, fs', calls) \<Rightarrow> (Inr sent, fs', calls)
      | (Inl error, fs', calls) \<Rightarrow>
          (case readProp error (str ''message'') of
             Inl typeError \<Rightarrow> (Inl typeError, fs', calls)
           | Inr logged \<Rightarrow>
               let failed = \<lparr>status = 500,
                             payload = JObject
                               [(str ''success'', JBool False),
                                (str ''error'', JString (str ''Failed to process image'')),
                                (str ''message'', logged)]\<rparr>
               in
               (case file of
                  None \<Rightarrow> (Inr failed, fs', calls)
                | Some f \<Rightarrow>
                    if existsSync fs' (path f)
                    then (case unlinkSync fs' (path f) of
                            Inl error' \<Rightarrow> (Inl error', fs', calls)
                          | Inr fs'' \<Rightarrow> (Inr failed, fs'', calls))
                    else (Inr failed, fs', calls))))"

section \<open>The resolver as the specification describes it\<close>

text \<open>
  \<^verbatim>\<open>queryResolver.js\<close> is not among the sources. Section 4.5 of the specification gives
  its \<^verbatim>\<open>resolve\<close> as five steps in a row: validate, classify, look up, compose the
  context, generate. The reference data and the generation backend are parameters:
  a lookup gives the matching entry, a question and its answer, or none and never
  throws; a generator is given the text, the tag and the context, and gives the answer
  text or fails with the message of a \<^verbatim>\<open>GenerationError\<close>. The steps that ran are
  recorded.
\<close>

datatype stage = Classification | Lookup | Generation

type_synonym referenceLookup = "jsstring \<Rightarrow> (jsstring \<times> jsstring) option"
type_synonym generator = "jsstring \<Rightarrow> jsstring \<Rightarrow> jsstring \<Rightarrow> jsstring + jsstring"

text \<open>
  Modelled from the spec: the step Validate of \<^verbatim>\<open>resolve\<close> in \<^verbatim>\<open>queryResolver.js\<close>, which
  is missing. Section 4.5 wants \<^verbatim>\<open>rawText\<close> non-empty, and section 8 has every empty or
  whitespace-only input end with \<^verbatim>\<open>success:false\<close>: a text passes when it has a
  character that is not white space. A value that is not a string has no text.
\<close>

definition spec_validate :: "jsvalue \<Rightarrow> jsstring option" where
  "spec_validate rawText =
     (case rawText of
        JString t \<Rightarrow> if list_all isSpace t then None else Some t
      | _ \<Rightarrow> None)"

text \<open>
  Modelled from the spec: the step Compose context of \<^verbatim>\<open>resolve\<close> in
  \<^verbatim>\<open>queryResolver.js\<close>, which is missing. Sections 4.3 and 4.5 merge \<^verbatim>\<open>options.context\<close>
  into the context when it is present.
\<close>

definition spec_compose :: "jsvalue \<Rightarrow> jsstring" where
  "spec_compose options =
     (case getProp options (str ''context'') of JString c \<Rightarrow> c | _ \<Rightarrow> [])"

text \<open>
  Modelled from the spec: \<^verbatim>\<open>resolve\<close> of \<^verbatim>\<open>queryResolver.js\<close>, which is missing, after the
  state machine of section 4.5. A text that fails Validate ends at once with
  \<^verbatim>\<open>success:false, error:"empty input"\<close>; a reference match ends without generation;
  a \<^verbatim>\<open>GenerationError\<close> ends with \<^verbatim>\<open>success:false\<close> and its message. Classification is
  \<open>classifyMathQuestion\<close>.
\<close>

definition spec_resolve ::
  "referenceLookup \<Rightarrow> generator \<Rightarrow> jsvalue \<Rightarrow> jsvalue \<Rightarrow> jsvalue \<times> stage list" where
  "spec_resolve lookup generate rawText options =
     (case spec_validate rawText of
        None \<Rightarrow>
          (JObject [(str ''success'', JBool False),
                    (str ''error'', JString (str ''empty input''))],
           [])
      | Some t \<Rightarrow>
          let domainTag = classifyMathQuestion t in
          (case lookup t of
             Some entry \<Rightarrow>
               (JObject [(str ''success'', JBool True),
                         (str ''answerText'', JString (snd entry)),
                         (str ''domainTag'', JString domainTag)],
                [Classification, Lookup])
           | None \<Rightarrow>
               let context = spec_compose options in
               (case generate t domainTag context of
                  Inr answerText \<Rightarrow>
                    (JObject [(str ''success'', JBool True),
                              (str ''answerText'', JString answerText),
                              (str ''domainTag'', JString domainTag)],
                     [Classification, Lookup, Generation])
                | Inl failure \<Rightarrow>
                    (JObject [(str ''success'', JBool False),
                              (str ''error'', JString failure)],
                     [Classification, Lookup, Generation]))))"

text \<open>
  Modelled from the spec: \<^verbatim>\<open>resolveQuery\<close> of \<^verbatim>\<open>queryResolver.js\<close>, which is missing, as
  the handlers call it. By section 7 no failure leaves \<^verbatim>\<open>resolve\<close> as an exception,
  so the call always gives the answer that \<open>spec_resolve\<close> builds.
\<close>

definition spec_resolveQuery :: "referenceLookup \<Rightarrow> generator \<Rightarrow> resolver" where
  "spec_resolveQuery lookup generate rawText options =
     Inr (fst (spec_resolve lookup generate rawText options))"

section \<open>Collaborators for the concrete runs\<close>

text \<open>A resolver that answers, one that throws the error of a timed-out backend, one
  that rejects with \<^verbatim>\<open>undefined\<close>, reference data with no entry, a generator that
  answers, an image processor that reads one line of text, and a disk with one uploaded
  file.\<close>

definition stubAnswer :: jsvalue where
  "stubAnswer = JObject [(str ''success'', JBool True), (str ''answer'', JString (str ''stub''))]"

definition stubResolver :: resolver where
  "stubResolver question options = Inr stubAnswer"



definition noReference :: referenceLookup where
  "noReference t = None"

definition stubGenerator :: generator where
  "stubGenerator t domainTag context = Inr (str ''stub'')"

definition stubImageToBase64 :: "buffer \<Rightarrow> jsstring \<Rightarrow> jsstring" where
  "stubImageToBase64 imageBuffer mime = str ''data:'' @ mime @ str '';base64,AA==''"

definition stubProcessImage :: "jsstring \<Rightarrow> jsstring \<Rightarrow> jsvalue + imageResult" where
  "stubProcessImage imageBase64 mime =
     Inr \<lparr>imageSuccess = True, imageText = str ''Solve 2x + 3 = 7'', imageError = JUndefined\<rparr>"

definition stubFile :: upload where
  "stubFile = \<lparr>path = str ''uploads/1'', mimetype = str ''image/png''\<rparr>"

definition stubFs :: filesystem where
  "stubFs = [str ''uploads/1'' \<mapsto> [0]]"

section \<open>Facts about the string operations\<close>

lemma startsWith_iff: "startsWith s p \<longleftrightarrow> (\<exists>b. s = p @ b)"
  by (induction s p rule: startsWith.induct) auto

lemma includes_str_iff: "includes_str s p \<longleftrightarrow> (\<exists>a b. s = a @ p @ b)"
proof (induction s)
  case Nil
  show ?case by (cases p) auto
next
  case (Cons c cs)
  show ?case
  proof
    assume "includes_str (c # cs) p"
    then consider "startsWith (c # cs) p" | "includes_str cs p" by auto
    then show "\<exists>a b. c # cs = a @ p @ b"
    proof cases
      case 1
      then obtain b where "c # cs = p @ b" by (auto simp: startsWith_iff)
      then have "c # cs = [] @ p @ b" by simp
      then show ?thesis by blast
    next
      case 2
      then obtain a b where "cs = a @ p @ b" using Cons.IH by auto
      then have "c # cs = (c # a) @ p @ b" by simp
      then show ?thesis by blast
    qed
  next
    assume "\<exists>a b. c # cs = a @ p @ b"
    then obtain a b where ab: "c # cs = a @ p @ b" by blast
    show "includes_str (c # cs) p"
    proof (cases a)
      case Nil
      with ab have "startsWith (c # cs) p" by (auto simp: startsWith_iff)
      then show ?thesis by simp
    next
      case (Cons x a')
      with ab have "cs = a' @ p @ b" by simp
      then have "includes_str cs p" using Cons.IH by blast
      then show ?thesis by simp
    qed
  qed
qed

lemma includes_str_unit: "c \<in> set s \<Longrightarrow> includes_str s [c]"
proof -
  assume "c \<in> set s"
  then obtain a b where "s = a @ c # b" by (auto simp: in_set_conv_decomp)
  then have "s = a @ [c] @ b" by simp
  then show ?thesis unfolding includes_str_iff by blast
qed

lemma includes_str_trans:
  assumes "includes_str s p" and "includes_str p r"
  shows "includes_str s r"
proof -
  from assms obtain a b c d where "s = a @ p @ b" and "p = c @ r @ d"
    unfolding includes_str_iff by blast
  then have "s = (a @ c) @ r @ (d @ b)" by simp
  then show ?thesis unfolding includes_str_iff by blast
qed

lemma toLowerCase_append: "toLowerCase (a @ b) = toLowerCase a @ toLowerCase b"
  by (simp add: toLowerCase_def)

text \<open>A pattern that lower-casing leaves alone is found in the lower-cased text
  wherever it is found in the text.\<close>

lemma includes_str_toLowerCase:
  assumes "includes_str s p" and "toLowerCase p = p"
  shows "includes_str (toLowerCase s) p"
proof -
  from assms(1) obtain a b where "s = a @ p @ b" unfolding includes_str_iff by blast
  then have "toLowerCase s = toLowerCase a @ p @ toLowerCase b"
    using assms(2) by (simp add: toLowerCase_append)
  then show ?thesis unfolding includes_str_iff by blast
qed

section \<open>Rules for evaluating on concrete texts\<close>

text \<open>The searches written with \<open>if\<close>, so that the simplifier stops at the first hit,
  and the comparison of two code units given by numerals.\<close>

lemma startsWith_if:
  "startsWith (c # cs) (p # ps) = (if c = p then startsWith cs ps else False)"
  by simp

lemma includes_str_if:
  "includes_str (c # cs) p = (if startsWith (c # cs) p then True else includes_str cs p)"
  by simp

lemma list_ex_if: "list_ex P (x # xs) = (if P x then True else list_ex P xs)"
  by simp

lemma codeunit_of_nat_eq:
  assumes "m < 65536" and "n < 65536"
  shows "((of_nat m :: codeunit) = of_nat n) = (m = n)"
proof -
  have "take_bit 16 m = m" and "take_bit 16 n = n"
    using assms by (simp_all add: take_bit_nat_eq_self)
  then show ?thesis by (simp add: word_of_nat_eq_iff)
qed

lemma codeunit_numeral_eq:
  "numeral x < (65536::nat) \<Longrightarrow> numeral y < (65536::nat) \<Longrightarrow>
     ((numeral x :: codeunit) = numeral y) = (x = y)"
  using codeunit_of_nat_eq [of "numeral x" "numeral y"]
  by (simp del: word_eq_numeral_iff_iszero)

lemmas scan =
  startsWith_if includes_str_if list_ex_if codeunit_numeral_eq list_ex_Nil_iff
  includes_str.simps(1) startsWith.simps(1,2) numeral_less_iff less_num_simps num.inject
  num.distinct simp_thms if_True if_False

lemma mathKeywords_units:
  "mathKeywords =
     [[115, 111, 108, 118, 101], [99, 97, 108, 99, 117, 108, 97, 116, 101], [102, 105,
     110, 100], [99, 111, 109, 112, 117, 116, 101], [101, 118, 97, 108, 117, 97, 116,
     101], [115, 105, 109, 112, 108, 105, 102, 121], [101, 113, 117, 97, 116, 105, 111,
     110], [105, 110, 101, 113, 117, 97, 108, 105, 116, 121], [100, 101, 114, 105, 118,
     97, 116, 105, 118, 101], [105, 110, 116, 101, 103, 114, 97, 108], [108, 105, 109,
     105, 116], [109, 97, 116, 114, 105, 120], [112, 111, 108, 121, 110, 111, 109, 105,
     97, 108], [113, 117, 97, 100, 114, 97, 116, 105, 99], [108, 105, 110, 101, 97, 114],
     [116, 114, 105, 103, 111, 110, 111, 109, 101, 116, 114, 121], [103, 101, 111, 109,
     101, 116, 114, 121], [97, 108, 103, 101, 98, 114, 97], [99, 97, 108, 99, 117, 108,
     117, 115], [115, 116, 97, 116, 105, 115, 116, 105, 99, 115], [112, 114, 111, 98, 97,
     98, 105, 108, 105, 116, 121], [102, 114, 97, 99, 116, 105, 111, 110], [112, 101, 114,
     99, 101, 110, 116, 97, 103, 101], [114, 97, 116, 105, 111], [112, 114, 111, 112, 111,
     114, 116, 105, 111, 110], [97, 114, 101, 97], [118, 111, 108, 117, 109, 101], [112,
     101, 114, 105, 109, 101, 116, 101, 114], [97, 110, 103, 108, 101], [116, 114, 105,
     97, 110, 103, 108, 101], [99, 105, 114, 99, 108, 101], [115, 113, 117, 97, 114, 101],
     [114, 101, 99, 116, 97, 110, 103, 108, 101], [103, 114, 97, 112, 104], [102, 117,
     110, 99, 116, 105, 111, 110], [108, 111, 103, 97, 114, 105, 116, 104, 109], [101,
     120, 112, 111, 110, 101, 110, 116, 105, 97, 108], [115, 105, 110], [99, 111, 115],
     [116, 97, 110]]"
  by (simp add: mathKeywords_def str_def)

lemma mathSymbols_units:
  "mathSymbols =
     [[43], [45], [42], [47], [61], [8800], [60], [62], [8804], [8805], [8730], [178],
     [179], [8747], [8721], [960], [8734], [952], [945], [946], [947], [916], [8706],
     [8711]]"
  by (simp add: mathSymbols_def str_def)

lemma trigger_units:
  "str ''integrate'' = [105, 110, 116, 101, 103, 114, 97, 116, 101]"
  "str ''integration'' = [105, 110, 116, 101, 103, 114, 97, 116, 105, 111, 110]"
  "str ''derivative'' = [100, 101, 114, 105, 118, 97, 116, 105, 118, 101]"
  "str ''differentiate'' = [100, 105, 102, 102, 101, 114, 101, 110, 116, 105, 97, 116, 101]"
  "str ''d/dx'' = [100, 47, 100, 120]"
  "str ''matrix'' = [109, 97, 116, 114, 105, 120]"
  "str ''determinant'' = [100, 101, 116, 101, 114, 109, 105, 110, 97, 110, 116]"
  "str ''trig'' = [116, 114, 105, 103]"
  "str ''sin'' = [115, 105, 110]"
  "str ''cos'' = [99, 111, 115]"
  "str ''tan'' = [116, 97, 110]"
  "str ''geometry'' = [103, 101, 111, 109, 101, 116, 114, 121]"
  "str ''area'' = [97, 114, 101, 97]"
  "str ''volume'' = [118, 111, 108, 117, 109, 101]"
  "str ''perimeter'' = [112, 101, 114, 105, 109, 101, 116, 101, 114]"
  "str ''probability'' = [112, 114, 111, 98, 97, 98, 105, 108, 105, 116, 121]"
  "str ''statistics'' = [115, 116, 97, 116, 105, 115, 116, 105, 99, 115]"
  by (simp_all add: str_def)

lemmas short_text =
  classifyMathQuestion_def toLowerCase_def lowerUnit_def str_def hasMathKeyword_def
  hasMathSymbol_def mathKeywords_def mathSymbols_def hasMathExpression_def hasVariables_def
  isExpressionChar_def isDigit_def isAsciiLetter_def isSpace_def isOperator_def
  isWordChar_def isVariableName_def letterThenOperator_def operatorThenLetter_def
  startsWith_if includes_str_if list_ex_if

lemmas short_text_del = startsWith.simps(3) includes_str.simps(2) list_ex_Cons_iff

section \<open>The tags and the gate\<close>

lemma classify_in_tags: "classifyMathQuestion question \<in> set classificationTags"
  by (simp add: classifyMathQuestion_def classificationTags_def Let_def)

lemma tags_not_unknown:
  "str ''integrals'' \<noteq> str ''unknown''" "str ''calculus'' \<noteq> str ''unknown''"
  "str ''linear_algebra'' \<noteq> str ''unknown''" "str ''trigonometry'' \<noteq> str ''unknown''"
  "str ''geometry'' \<noteq> str ''unknown''" "str ''statistics'' \<noteq> str ''unknown''"
  "str ''math'' \<noteq> str ''unknown''"
  by (simp_all add: str_def)

lemma classify_unknown_iff:
  "classifyMathQuestion question = str ''unknown'' \<longleftrightarrow>
     \<not> (hasMathKeyword (toLowerCase question) \<or> hasMathSymbol question
        \<or> (hasMathExpression question \<and> hasVariables question))"
  using tags_not_unknown by (simp add: classifyMathQuestion_def Let_def)

lemma classify_spec_firstMatch:
  assumes "hasMathKeyword (toLowerCase question) \<or> hasMathSymbol question
     \<or> (hasMathExpression question \<and> hasVariables question)"
  shows "classifyMathQuestion question =
     spec_firstMatch (toLowerCase question) spec_priorityRules"
  using assms by (simp add: classifyMathQuestion_def Let_def spec_priorityRules_def)

lemma hasMathKeyword_I:
  "keyword \<in> set mathKeywords \<Longrightarrow> includes_str q keyword \<Longrightarrow> hasMathKeyword q"
  by (auto simp: hasMathKeyword_def list_ex_iff)

lemma hasMathSymbol_I:
  "symbol \<in> set mathSymbols \<Longrightarrow> includes_str question symbol \<Longrightarrow> hasMathSymbol question"
  by (auto simp: hasMathSymbol_def list_ex_iff)

lemma spec_firstMatch_keyword:
  assumes "includes_str q keyword"
    and "\<not> list_ex (\<lambda>trigger. includes_str q trigger) (higherPriorityTriggers keyword rules)"
  shows "spec_firstMatch q rules = spec_firstMatch keyword rules"
  using assms(2)
proof (induction rules)
  case Nil
  show ?case by simp
next
  case (Cons rule rules)
  obtain triggers tag where rule: "rule = (triggers, tag)" by (cases rule)
  show ?case
  proof (cases "list_ex (\<lambda>trigger. includes_str keyword trigger) triggers")
    case True
    then obtain trigger where "trigger \<in> set triggers" and "includes_str keyword trigger"
      by (auto simp: list_ex_iff)
    then have "list_ex (\<lambda>trigger. includes_str q trigger) triggers"
      using assms(1) includes_str_trans by (auto simp: list_ex_iff)
    with True rule show ?thesis by simp
  next
    case False
    with Cons.prems rule
    have "\<not> list_ex (\<lambda>trigger. includes_str q trigger) triggers"
      and "\<not> list_ex (\<lambda>trigger. includes_str q trigger) (higherPriorityTriggers keyword rules)"
      by simp_all
    with False rule Cons.IH show ?thesis by simp
  qed
qed

lemma lower_integrate: "toLowerCase (str ''integrate'') = str ''integrate''"
  by (simp add: toLowerCase_def lowerUnit_def str_def)

lemma lower_derivative: "toLowerCase (str ''derivative'') = str ''derivative''"
  by (simp add: toLowerCase_def lowerUnit_def str_def)

section \<open>The classifier on concrete questions\<close>

lemma classify_empty: "classifyMathQuestion [] = str ''unknown''"
  by (simp add: short_text del: short_text_del)

lemma classify_integral_sign: "classifyMathQuestion [0x222B] = str ''integrals''"
  by (simp add: short_text del: short_text_del)

lemma classify_ddx: "classifyMathQuestion (str ''d/dx'') = str ''calculus''"
  by (simp add: short_text del: short_text_del)

lemma classify_matrix: "classifyMathQuestion (str ''matrix'') = str ''linear_algebra''"
  by (simp add: short_text del: short_text_del)

lemma classify_sin: "classifyMathQuestion (str ''sin'') = str ''trigonometry''"
  by (simp add: short_text del: short_text_del)

lemma classify_area: "classifyMathQuestion (str ''area'') = str ''geometry''"
  by (simp add: short_text del: short_text_del)

lemma classify_probability: "classifyMathQuestion (str ''probability'') = str ''statistics''"
  by (simp add: short_text del: short_text_del)

lemma classify_solve: "classifyMathQuestion (str ''solve'') = str ''math''"
  by (simp add: short_text del: short_text_del)

lemma classify_integral_x_dx:
  "classifyMathQuestion (0x222B # str '' x dx'') = str ''integrals''"
  by (simp add: short_text del: short_text_del)

lemma classify_derivative_example:
  "classifyMathQuestion (str ''find the derivative of x^2'') = str ''calculus''"
proof -
  have lit: "str ''find the derivative of x^2'' =
     [102, 105, 110, 100, 32, 116, 104, 101, 32, 100, 101, 114, 105, 118, 97, 116, 105,
     118, 101, 32, 111, 102, 32, 120, 94, 50]"
    by (simp add: str_def)
  have lower: "toLowerCase
     [102, 105, 110, 100, 32, 116, 104, 101, 32, 100, 101, 114, 105, 118, 97, 116, 105,
     118, 101, 32, 111, 102, 32, 120, 94, 50] =
     [102, 105, 110, 100, 32, 116, 104, 101, 32, 100, 101, 114, 105, 118, 97, 116, 105,
     118, 101, 32, 111, 102, 32, 120, 94, 50]"
    by (simp add: toLowerCase_def lowerUnit_def)
  have kw: "hasMathKeyword
     [102, 105, 110, 100, 32, 116, 104, 101, 32, 100, 101, 114, 105, 118, 97, 116, 105,
     118, 101, 32, 111, 102, 32, 120, 94, 50]"
    by (simp only: hasMathKeyword_def mathKeywords_units scan)
  show ?thesis
    by (simp only: lit classifyMathQuestion_def Let_def lower kw trigger_units scan)
qed

lemma keywordTag_derivative: "keywordTag (str ''derivative'') = str ''calculus''"
  by (simp add: keywordTag_def spec_priorityRules_def str_def startsWith_if includes_str_if
      list_ex_if del: short_text_del)

lemma keywordTag_integral: "keywordTag (str ''integral'') = str ''math''"
  by (simp add: keywordTag_def spec_priorityRules_def str_def startsWith_if includes_str_if
      list_ex_if del: short_text_del)

section \<open>The claims about the classifier\<close>

text \<open>
  Claim C5. \<^verbatim>\<open>classifyMathQuestion("what is the capital of France?")\<close> is
  \<^verbatim>\<open>"unknown"\<close>: the lower-cased question contains none of the keywords, the question
  contains none of the symbols, and it has no expression character, so the
  expression-and-variable test fails too.
\<close>

theorem classify_capital_of_France:
  "\<not> hasMathKeyword (toLowerCase (str ''what is the capital of France?''))
   \<and> \<not> hasMathSymbol (str ''what is the capital of France?'')
   \<and> \<not> (hasMathExpression (str ''what is the capital of France?'')
          \<and> hasVariables (str ''what is the capital of France?''))
   \<and> classifyMathQuestion (str ''what is the capital of France?'') = str ''unknown''"
proof -
  have lit: "str ''what is the capital of France?'' =
     [119, 104, 97, 116, 32, 105, 115, 32, 116, 104, 101, 32, 99, 97, 112, 105, 116, 97,
     108, 32, 111, 102, 32, 70, 114, 97, 110, 99, 101, 63]"
    by (simp add: str_def)
  have lower: "toLowerCase
     [119, 104, 97, 116, 32, 105, 115, 32, 116, 104, 101, 32, 99, 97, 112, 105, 116, 97,
     108, 32, 111, 102, 32, 70, 114, 97, 110, 99, 101, 63] =
     [119, 104, 97, 116, 32, 105, 115, 32, 116, 104, 101, 32, 99, 97, 112, 105, 116, 97,
     108, 32, 111, 102, 32, 102, 114, 97, 110, 99, 101, 63]"
    by (simp add: toLowerCase_def lowerUnit_def)
  have kw: "\<not> hasMathKeyword
     [119, 104, 97, 116, 32, 105, 115, 32, 116, 104, 101, 32, 99, 97, 112, 105, 116, 97,
     108, 32, 111, 102, 32, 102, 114, 97, 110, 99, 101, 63]"
    by (simp only: hasMathKeyword_def mathKeywords_units scan)
  have sym: "\<not> hasMathSymbol
     [119, 104, 97, 116, 32, 105, 115, 32, 116, 104, 101, 32, 99, 97, 112, 105, 116, 97,
     108, 32, 111, 102, 32, 70, 114, 97, 110, 99, 101, 63]"
    by (simp only: hasMathSymbol_def mathSymbols_units scan)
  have expr: "\<not> hasMathExpression
     [119, 104, 97, 116, 32, 105, 115, 32, 116, 104, 101, 32, 99, 97, 112, 105, 116, 97,
     108, 32, 111, 102, 32, 70, 114, 97, 110, 99, 101, 63]"
    by (simp add: hasMathExpression_def isExpressionChar_def isDigit_def str_def)
  show ?thesis
    by (simp only: lit lower kw sym expr classify_unknown_iff simp_thms)
qed

text \<open>
  Claim C6. \<open>classifyMathQuestion\<close> returns one of its tags for every string (no path
  of it throws on a string), and the tag is \<^verbatim>\<open>"unknown"\<close> exactly when the lower-cased
  text contains no keyword, the text contains no symbol, and the text does not have
  both an expression character and a variable; the empty string is tagged
  \<^verbatim>\<open>"unknown"\<close>.
\<close>

theorem classify_total_unknown_exactly:
  "classifyMathQuestion question \<in> set classificationTags
   \<and> ((classifyMathQuestion question = str ''unknown'') =
        (\<not> hasMathKeyword (toLowerCase question) \<and> \<not> hasMathSymbol question
         \<and> \<not> (hasMathExpression question \<and> hasVariables question)))
   \<and> classifyMathQuestion [] = str ''unknown''"
  using classify_in_tags [of question] classify_unknown_iff [of question] classify_empty
  by simp

text \<open>
  Claim C9. The values of \<open>classifyMathQuestion\<close> over all strings are exactly the
  eight tags \<^verbatim>\<open>"integrals"\<close>, \<^verbatim>\<open>"calculus"\<close>, \<^verbatim>\<open>"linear_algebra"\<close>, \<^verbatim>\<open>"trigonometry"\<close>,
  \<^verbatim>\<open>"geometry"\<close>, \<^verbatim>\<open>"statistics"\<close>, \<^verbatim>\<open>"math"\<close> and \<^verbatim>\<open>"unknown"\<close>: each is returned for
  some string and nothing else ever is. \<^verbatim>\<open>"general"\<close> is not among them.
\<close>

theorem classify_range_eight_tags:
  "range classifyMathQuestion = set classificationTags
   \<and> length classificationTags = 8 \<and> distinct classificationTags
   \<and> str ''general'' \<notin> range classifyMathQuestion"
proof -
  have sub: "range classifyMathQuestion \<subseteq> set classificationTags"
    using classify_in_tags by blast
  have "\<exists>s. classifyMathQuestion s = t" if "t \<in> set classificationTags" for t
    using that classify_empty classify_integral_sign classify_ddx classify_matrix
      classify_sin classify_area classify_probability classify_solve
    unfolding classificationTags_def by auto
  then have sup: "set classificationTags \<subseteq> range classifyMathQuestion"
    by (metis rangeI subsetI)
  have general: "str ''general'' \<notin> set classificationTags"
    by (simp add: classificationTags_def str_def)
  have shape: "length classificationTags = 8 \<and> distinct classificationTags"
    by (simp add: classificationTags_def str_def)
  from sub sup general shape show ?thesis by blast
qed

text \<open>
  Claim C1, as the code has it. A question whose lower-cased text contains one of the
  keywords, and no trigger of a rule above the keyword's own rule, gets the keyword's
  tag; \<^verbatim>\<open>"find the derivative of x^2"\<close> is tagged \<^verbatim>\<open>"calculus"\<close>. The keyword
  \<^verbatim>\<open>"integral"\<close> triggers none of the six rules (the first rule looks for U+222B,
  \<^verbatim>\<open>"integrate"\<close> and \<^verbatim>\<open>"integration"\<close>), so its tag is \<^verbatim>\<open>"math"\<close>.
\<close>

theorem classify_keyword_tag:
  "(keyword \<in> set mathKeywords \<and> includes_str (toLowerCase question) keyword
      \<and> \<not> list_ex (\<lambda>trigger. includes_str (toLowerCase question) trigger)
            (higherPriorityTriggers keyword spec_priorityRules)
     \<longrightarrow> classifyMathQuestion question = keywordTag keyword)
   \<and> keywordTag (str ''derivative'') = str ''calculus''
   \<and> classifyMathQuestion (str ''find the derivative of x^2'') = str ''calculus''
   \<and> keywordTag (str ''integral'') = str ''math''"
proof -
  have "classifyMathQuestion question = keywordTag keyword"
    if k: "keyword \<in> set mathKeywords" and inc: "includes_str (toLowerCase question) keyword"
      and none: "\<not> list_ex (\<lambda>trigger. includes_str (toLowerCase question) trigger)
            (higherPriorityTriggers keyword spec_priorityRules)"
  proof -
    have "hasMathKeyword (toLowerCase question)" using k inc by (rule hasMathKeyword_I)
    then have "classifyMathQuestion question =
        spec_firstMatch (toLowerCase question) spec_priorityRules"
      by (simp add: classify_spec_firstMatch)
    also have "\<dots> = spec_firstMatch keyword spec_priorityRules"
      using inc none by (rule spec_firstMatch_keyword)
    finally show ?thesis by (simp add: keywordTag_def)
  qed
  then show ?thesis
    using keywordTag_derivative classify_derivative_example keywordTag_integral by blast
qed

text \<open>The theorem at the keyword \<^verbatim>\<open>"derivative"\<close> and the question of the claim.\<close>

theorem classify_keyword_tag_witness:
  "str ''derivative'' \<in> set mathKeywords
   \<and> includes_str (toLowerCase (str ''find the derivative of x^2'')) (str ''derivative'')
   \<and> \<not> list_ex (includes_str (toLowerCase (str ''find the derivative of x^2'')))
         (higherPriorityTriggers (str ''derivative'') spec_priorityRules)
   \<and> classifyMathQuestion (str ''find the derivative of x^2'') = keywordTag (str ''derivative'')"
proof -
  have k: "str ''derivative'' \<in> set mathKeywords" by (simp add: mathKeywords_def)
  have lower: "toLowerCase (str ''find the derivative of x^2'') =
      str ''find the derivative of x^2''"
    by (simp add: toLowerCase_def lowerUnit_def str_def)
  have inc: "includes_str (str ''find the derivative of x^2'') (str ''derivative'')"
    by (simp add: str_def startsWith_if includes_str_if del: short_text_del)
  have none: "\<not> list_ex (includes_str (str ''find the derivative of x^2''))
         (higherPriorityTriggers (str ''derivative'') spec_priorityRules)"
    by (simp add: spec_priorityRules_def str_def startsWith_if includes_str_if list_ex_if
        del: short_text_del)
  show ?thesis
    using classify_keyword_tag [of "str ''derivative''" "str ''find the derivative of x^2''"]
      k lower inc none by simp
qed

text \<open>
  Claim C1, as it is stated, fails at \<^verbatim>\<open>"integral of x"\<close>: the text contains the keyword
  \<^verbatim>\<open>"integral"\<close> and no trigger of any of the six rules, and it is tagged \<^verbatim>\<open>"math"\<close>,
  not \<^verbatim>\<open>"integrals"\<close>.
\<close>

theorem classify_integral_keyword_is_math:
  "str ''integral'' \<in> set mathKeywords
   \<and> includes_str (toLowerCase (str ''integral of x'')) (str ''integral'')
   \<and> \<not> list_ex (includes_str (toLowerCase (str ''integral of x'')))
         (concat (map fst spec_priorityRules))
   \<and> classifyMathQuestion (str ''integral of x'') = str ''math''
   \<and> classifyMathQuestion (str ''integral of x'') \<noteq> str ''integrals''"
proof -
  have k: "str ''integral'' \<in> set mathKeywords" by (simp add: mathKeywords_def)
  have lower: "toLowerCase (str ''integral of x'') = str ''integral of x''"
    by (simp add: toLowerCase_def lowerUnit_def str_def)
  have inc: "includes_str (str ''integral of x'') (str ''integral'')"
    by (simp add: str_def startsWith_if includes_str_if del: short_text_del)
  have none: "\<not> list_ex (includes_str (str ''integral of x''))
         (concat (map fst spec_priorityRules))"
    by (simp add: spec_priorityRules_def str_def startsWith_if includes_str_if list_ex_if
        del: short_text_del)
  have "hasMathKeyword (toLowerCase (str ''integral of x''))"
    using k inc lower hasMathKeyword_I by simp
  then have "classifyMathQuestion (str ''integral of x'') =
      spec_firstMatch (str ''integral of x'') spec_priorityRules"
    using classify_spec_firstMatch lower by simp
  also have "\<dots> = str ''math''"
    by (simp add: spec_priorityRules_def str_def startsWith_if includes_str_if list_ex_if
        del: short_text_del)
  finally have m: "classifyMathQuestion (str ''integral of x'') = str ''math''" .
  have "str ''math'' \<noteq> str ''integrals''" by (simp add: str_def)
  with k lower inc none m show ?thesis by simp
qed

text \<open>
  Claim C2. A question that passes the gate (a keyword in the lower-cased text, a symbol
  in the text, or an expression character together with a variable) gets the tag of
  the first rule, in the order integrals, calculus, linear_algebra, trigonometry,
  geometry, statistics, that has a trigger in the lower-cased text, and \<^verbatim>\<open>"math"\<close> when
  none has. The text made of U+222B and \<^verbatim>\<open>" x dx"\<close> is tagged \<^verbatim>\<open>"integrals"\<close>, and so is
  every text that contains \<^verbatim>\<open>"integrate"\<close> and \<^verbatim>\<open>"derivative"\<close>, as written or in
  another letter case.
\<close>

theorem classify_first_matching_rule:
  "(hasMathKeyword (toLowerCase question) \<or> hasMathSymbol question
      \<or> (hasMathExpression question \<and> hasVariables question)
     \<longrightarrow> classifyMathQuestion question =
          spec_firstMatch (toLowerCase question) spec_priorityRules)
   \<and> map snd spec_priorityRules =
       map str [''integrals'', ''calculus'', ''linear_algebra'', ''trigonometry'',
                ''geometry'', ''statistics'']
   \<and> spec_firstMatch (toLowerCase question) [] = str ''math''
   \<and> classifyMathQuestion (0x222B # str '' x dx'') = str ''integrals''
   \<and> ((includes_str u (str ''integrate'') \<or> includes_str (toLowerCase u) (str ''integrate''))
        \<and> (includes_str u (str ''derivative'')
             \<or> includes_str (toLowerCase u) (str ''derivative''))
       \<longrightarrow> classifyMathQuestion u = str ''integrals'')"
proof -
  have both: "classifyMathQuestion u = str ''integrals''"
    if i: "includes_str u (str ''integrate'') \<or> includes_str (toLowerCase u) (str ''integrate'')"
      and d: "includes_str u (str ''derivative'')
             \<or> includes_str (toLowerCase u) (str ''derivative'')"
  proof -
    have i': "includes_str (toLowerCase u) (str ''integrate'')"
      using i includes_str_toLowerCase lower_integrate by blast
    have d': "includes_str (toLowerCase u) (str ''derivative'')"
      using d includes_str_toLowerCase lower_derivative by blast
    have "str ''derivative'' \<in> set mathKeywords" by (simp add: mathKeywords_def)
    then have "hasMathKeyword (toLowerCase u)" using d' by (rule hasMathKeyword_I)
    then show ?thesis using i' by (simp add: classifyMathQuestion_def Let_def)
  qed
  have order: "map snd spec_priorityRules =
       map str [''integrals'', ''calculus'', ''linear_algebra'', ''trigonometry'',
                ''geometry'', ''statistics'']"
    by (simp add: spec_priorityRules_def)
  have default: "spec_firstMatch (toLowerCase question) [] = str ''math''" by simp
  show ?thesis
    using classify_spec_firstMatch [of question] order default classify_integral_x_dx both
    by blast
qed

text \<open>The theorem at \<^verbatim>\<open>"solve 2x"\<close>, which passes the gate by a keyword, and at
  \<^verbatim>\<open>"integrate the derivative"\<close>.\<close>

theorem classify_first_matching_rule_witness:
  "hasMathKeyword (toLowerCase (str ''solve 2x''))
   \<and> classifyMathQuestion (str ''solve 2x'') =
       spec_firstMatch (toLowerCase (str ''solve 2x'')) spec_priorityRules
   \<and> includes_str (str ''integrate the derivative'') (str ''integrate'')
   \<and> includes_str (str ''integrate the derivative'') (str ''derivative'')
   \<and> classifyMathQuestion (str ''integrate the derivative'') = str ''integrals''"
proof -
  have kw: "hasMathKeyword (toLowerCase (str ''solve 2x''))"
    by (simp add: hasMathKeyword_def mathKeywords_def toLowerCase_def lowerUnit_def str_def
        startsWith_if includes_str_if list_ex_if del: short_text_del)
  have i: "includes_str (str ''integrate the derivative'') (str ''integrate'')"
    by (simp add: str_def startsWith_if includes_str_if del: short_text_del)
  have d: "includes_str (str ''integrate the derivative'') (str ''derivative'')"
    by (simp add: str_def startsWith_if includes_str_if del: short_text_del)
  show ?thesis
    using classify_first_matching_rule
      [of "str ''solve 2x''" "str ''integrate the derivative''"] kw i d
    by blast
qed

text \<open>
  Claim C8. A question whose lower-cased text contains \<^verbatim>\<open>"sin"\<close> anywhere, inside a
  word or not, and none of the eight triggers of the three rules above (U+222B,
  \<^verbatim>\<open>"integrate"\<close>, \<^verbatim>\<open>"integration"\<close>, \<^verbatim>\<open>"derivative"\<close>, \<^verbatim>\<open>"differentiate"\<close>, \<^verbatim>\<open>"d/dx"\<close>,
  \<^verbatim>\<open>"matrix"\<close>, \<^verbatim>\<open>"determinant"\<close>) is tagged \<^verbatim>\<open>"trigonometry"\<close>.
\<close>

theorem classify_sin_substring:
  assumes "includes_str (toLowerCase question) (str ''sin'')"
    and "\<not> includes_str (toLowerCase question) [0x222B]"
    and "\<not> includes_str (toLowerCase question) (str ''integrate'')"
    and "\<not> includes_str (toLowerCase question) (str ''integration'')"
    and "\<not> includes_str (toLowerCase question) (str ''derivative'')"
    and "\<not> includes_str (toLowerCase question) (str ''differentiate'')"
    and "\<not> includes_str (toLowerCase question) (str ''d/dx'')"
    and "\<not> includes_str (toLowerCase question) (str ''matrix'')"
    and "\<not> includes_str (toLowerCase question) (str ''determinant'')"
  shows "classifyMathQuestion question = str ''trigonometry''"
proof -
  have "str ''sin'' \<in> set mathKeywords" by (simp add: mathKeywords_def)
  then have "hasMathKeyword (toLowerCase question)"
    using assms(1) by (rule hasMathKeyword_I)
  then show ?thesis using assms by (simp add: classifyMathQuestion_def Let_def)
qed

text \<open>The theorem at \<^verbatim>\<open>"Business plan"\<close>, where \<^verbatim>\<open>"sin"\<close> sits inside a word.\<close>

theorem classify_sin_substring_witness:
  "includes_str (toLowerCase (str ''Business plan'')) (str ''sin'')
   \<and> classifyMathQuestion (str ''Business plan'') = str ''trigonometry''"
proof -
  have lower: "toLowerCase (str ''Business plan'') = str ''business plan''"
    by (simp add: toLowerCase_def lowerUnit_def str_def)
  have inc: "includes_str (str ''business plan'') (str ''sin'')"
    by (simp add: str_def startsWith_if includes_str_if del: short_text_del)
  have none:
    "\<not> includes_str (str ''business plan'') [0x222B]"
    "\<not> includes_str (str ''business plan'') (str ''integrate'')"
    "\<not> includes_str (str ''business plan'') (str ''integration'')"
    "\<not> includes_str (str ''business plan'') (str ''derivative'')"
    "\<not> includes_str (str ''business plan'') (str ''differentiate'')"
    "\<not> includes_str (str ''business plan'') (str ''d/dx'')"
    "\<not> includes_str (str ''business plan'') (str ''matrix'')"
    "\<not> includes_str (str ''business plan'') (str ''determinant'')"
    by (simp_all add: str_def startsWith_if includes_str_if del: short_text_del)
  show ?thesis
    using classify_sin_substring [of "str ''Business plan''"] inc none
    unfolding lower by simp
qed

text \<open>
  Claim C10. A question that contains the character \<^verbatim>\<open>-\<close> (U+002D) is never tagged
  \<^verbatim>\<open>"unknown"\<close>, the hyphen being one of the symbols looked for in the text as given;
  when the lower-cased text has no trigger of the six rules the tag is \<^verbatim>\<open>"math"\<close>.
\<close>

theorem classify_hyphen_not_unknown:
  assumes "0x2D \<in> set question"
  shows "classifyMathQuestion question \<noteq> str ''unknown''
    \<and> (\<not> list_ex (\<lambda>trigger. includes_str (toLowerCase question) trigger)
            (concat (map fst spec_priorityRules))
        \<longrightarrow> classifyMathQuestion question = str ''math'')"
proof -
  have "[0x2D] \<in> set mathSymbols" by (simp add: mathSymbols_def str_def)
  moreover have "includes_str question [0x2D]" using assms by (rule includes_str_unit)
  ultimately have gate: "hasMathSymbol question" by (rule hasMathSymbol_I)
  then have "classifyMathQuestion question \<noteq> str ''unknown''"
    by (simp add: classify_unknown_iff)
  moreover have "classifyMathQuestion question = str ''math''"
    if "\<not> list_ex (\<lambda>trigger. includes_str (toLowerCase question) trigger)
            (concat (map fst spec_priorityRules))"
    using that gate by (simp add: classifyMathQuestion_def Let_def spec_priorityRules_def)
  ultimately show ?thesis by blast
qed

text \<open>The theorem at \<^verbatim>\<open>"well-known"\<close>, a hyphenated word with nothing else in it.\<close>

theorem classify_hyphen_not_unknown_witness:
  "0x2D \<in> set (str ''well-known'')
   \<and> classifyMathQuestion (str ''well-known'') \<noteq> str ''unknown''
   \<and> classifyMathQuestion (str ''well-known'') = str ''math''"
proof -
  have h: "0x2D \<in> set (str ''well-known'')" by (simp add: str_def)
  have none: "\<not> list_ex (\<lambda>trigger. includes_str (toLowerCase (str ''well-known'')) trigger)
            (concat (map fst spec_priorityRules))"
    by (simp add: spec_priorityRules_def toLowerCase_def lowerUnit_def str_def
        startsWith_if includes_str_if list_ex_if del: short_text_del)
  show ?thesis
    using classify_hyphen_not_unknown [OF h] h none by blast
qed

section \<open>The claims about the request handlers\<close>

lemma ask_falsy:
  assumes "\<not> truthy (getProp body (str ''question''))"
  shows "ask resolveQuery body =
      (Inr (if body = JUndefined \<or> body = JNull
            then \<lparr>status = 500,
                  payload = JObject
                    [(str ''success'', JBool False),
                     (str ''error'', JString (str ''Internal server error'')),
                     (str ''message'',
                      JString (str ''An unexpected error occurred. Please try again later.''))]\<rparr>
            else \<lparr>status = 400,
                  payload = JObject [(str ''success'', JBool False),
                                     (str ''error'', JString (str ''Question is required''))]\<rparr>),
       [])"
  using assms
  by (cases body)
    (auto simp: ask_def ask_try_def Let_def readProp_def destructureError_def newError_def)

lemma ask_truthy:
  assumes "truthy (getProp body (str ''question''))"
  shows "ask_try resolveQuery body =
      (case resolveQuery (getProp body (str ''question''))
              (JObject [(str ''language'', getProp body (str ''language''))]) of
         Inl error \<Rightarrow>
           (Inl error,
            [(getProp body (str ''question''),
              JObject [(str ''language'', getProp body (str ''language''))])])
       | Inr result \<Rightarrow>
           (Inr \<lparr>status = 200, payload = result\<rparr>,
            [(getProp body (str ''question''),
              JObject [(str ''language'', getProp body (str ''language''))])]))"
proof -
  have "body \<noteq> JUndefined" and "body \<noteq> JNull" using assms by auto
  then show ?thesis using assms by (simp add: ask_try_def Let_def)
qed

lemma spec_resolve_blank:
  assumes "list_all isSpace s"
  shows "spec_resolve lookup generate (JString s) options =
      (JObject [(str ''success'', JBool False), (str ''error'', JString (str ''empty input''))],
       [])"
  using assms by (simp add: spec_resolve_def spec_validate_def)

lemma error_texts_not_empty:
  "str ''Question is required'' \<noteq> []" "str ''Internal server error'' \<noteq> []"
  "str ''empty input'' \<noteq> []"
  by (simp_all add: str_def)

text \<open>
  Claim C3. When the \<^verbatim>\<open>question\<close> of the request is missing or empty (any value for
  which \<^verbatim>\<open>!question\<close> holds: \<^verbatim>\<open>undefined\<close>, \<^verbatim>\<open>null\<close>, \<^verbatim>\<open>false\<close>, \<^verbatim>\<open>0\<close>, the empty string),
  \<open>ask\<close> sends \<^verbatim>\<open>success: false\<close> with an error message at once and calls no resolver,
  whichever it is: status 400 and \<^verbatim>\<open>"Question is required"\<close>, or status 500 and
  \<^verbatim>\<open>"Internal server error"\<close> when the request has no body to read the question from.
  When the question is a string of white space, \<open>ask\<close> with the resolver of the
  specification sends \<^verbatim>\<open>success: false\<close> with the error \<^verbatim>\<open>"empty input"\<close>: the handler
  makes its one call, and that call ends in Validate, with no classification, no
  lookup and no generation. None of the three error texts is empty.
\<close>

theorem ask_empty_or_blank_question:
  "(\<not> truthy (getProp body (str ''question'')) \<longrightarrow>
      ask resolveQuery body =
        (Inr (if body = JUndefined \<or> body = JNull
              then \<lparr>status = 500,
                    payload = JObject
                      [(str ''success'', JBool False),
                       (str ''error'', JString (str ''Internal server error'')),
                       (str ''message'',
                        JString (str ''An unexpected error occurred. Please try again later.''))]\<rparr>
              else \<lparr>status = 400,
                    payload = JObject [(str ''success'', JBool False),
                                       (str ''error'', JString (str ''Question is required''))]\<rparr>),
         []))
   \<and> (getProp body (str ''question'') = JString s \<and> s \<noteq> [] \<and> list_all isSpace s \<longrightarrow>
        ask (spec_resolveQuery lookup generate) body =
          (Inr \<lparr>status = 200,
                payload = JObject [(str ''success'', JBool False),
                                   (str ''error'', JString (str ''empty input''))]\<rparr>,
           [(JString s, JObject [(str ''language'', getProp body (str ''language''))])])
        \<and> snd (spec_resolve lookup generate (JString s)
                 (JObject [(str ''language'', getProp body (str ''language''))])) = [])
   \<and> str ''Question is required'' \<noteq> [] \<and> str ''Internal server error'' \<noteq> []
   \<and> str ''empty input'' \<noteq> []"
proof -
  have blank: "ask (spec_resolveQuery lookup generate) body =
          (Inr \<lparr>status = 200,
                payload = JObject [(str ''success'', JBool False),
                                   (str ''error'', JString (str ''empty input''))]\<rparr>,
           [(JString s, JObject [(str ''language'', getProp body (str ''language''))])])
        \<and> snd (spec_resolve lookup generate (JString s)
                 (JObject [(str ''language'', getProp body (str ''language''))])) = []"
    if q: "getProp body (str ''question'') = JString s" and ne: "s \<noteq> []"
      and ws: "list_all isSpace s"
  proof -
    have "truthy (getProp body (str ''question''))" using q ne by simp
    then show ?thesis
      using q spec_resolve_blank [OF ws]
      by (simp add: ask_def ask_truthy spec_resolveQuery_def)
  qed
  show ?thesis
    using ask_falsy [of body resolveQuery] blank error_texts_not_empty by blast
qed

text \<open>The theorem at an empty question, with a resolver that would answer, and at a
  question of three spaces, with the resolver of the specification over reference
  data that has no entry and a generator that would answer.\<close>

theorem ask_empty_or_blank_question_witness:
  "\<not> truthy (getProp (JObject [(str ''question'', JString [])]) (str ''question''))
   \<and> ask stubResolver (JObject [(str ''question'', JString [])]) =
       (Inr \<lparr>status = 400,
             payload = JObject [(str ''success'', JBool False),
                                (str ''error'', JString (str ''Question is required''))]\<rparr>,
        [])
   \<and> getProp (JObject [(str ''question'', JString (str ''   ''))]) (str ''question'') =
       JString (str ''   '')
   \<and> str ''   '' \<noteq> [] \<and> list_all isSpace (str ''   '')
   \<and> ask (spec_resolveQuery noReference stubGenerator)
         (JObject [(str ''question'', JString (str ''   ''))]) =
       (Inr \<lparr>status = 200,
             payload = JObject [(str ''success'', JBool False),
                                (str ''error'', JString (str ''empty input''))]\<rparr>,
        [(JString (str ''   ''), JObject [(str ''language'', JUndefined)])])
   \<and> snd (spec_resolve noReference stubGenerator (JString (str ''   ''))
           (JObject [(str ''language'', JUndefined)])) = []"
proof -
  have falsy: "\<not> truthy (getProp (JObject [(str ''question'', JString [])]) (str ''question''))"
    by simp
  have q: "getProp (JObject [(str ''question'', JString (str ''   ''))]) (str ''question'') =
       JString (str ''   '')"
    by simp
  have blank: "str ''   '' \<noteq> []" "list_all isSpace (str ''   '')"
    by (simp_all add: isSpace_def str_def)
  have language:
    "getProp (JObject [(str ''question'', JString (str ''   ''))]) (str ''language'') = JUndefined"
    by (simp add: str_def)
  show ?thesis
    using ask_empty_or_blank_question
        [of "JObject [(str ''question'', JString [])]" stubResolver]
      ask_empty_or_blank_question
        [of "JObject [(str ''question'', JString (str ''   ''))]" _ "str ''   ''"
            noReference stubGenerator]
      falsy q blank language
    by simp
qed




text \<open>
  Claim C7. When the uploaded image is read and \<^verbatim>\<open>processImage\<close> succeeds on it,
  \<open>askImage\<close> calls \<^verbatim>\<open>resolveQuery\<close> once, with the extracted text as the question and
  with a context that is the sentence \<^verbatim>\<open>This question was extracted from an image.\<close>
  followed by \<^verbatim>\<open>Original extracted text:\<close> and the extracted text, unchanged.
\<close>

theorem askImage_context:
  assumes "file = Some f"
    and "fs (path f) = Some imageBuffer"
    and "processImage (imageToBase64 imageBuffer (mimetype f)) (mimetype f) = Inr imageResult"
    and "imageSuccess imageResult"
  shows "snd (snd (askImage imageToBase64 processImage resolveQuery fs file)) =
      [(JString (imageText imageResult),
        JObject [(str ''context'', JString (imageContext (imageText imageResult)))])]
    \<and> imageContext (imageText imageResult) =
        str ''This question was extracted from an image. Original extracted text: ''
          @ imageText imageResult
    \<and> includes_str (imageContext (imageText imageResult)) (imageText imageResult)
    \<and> startsWith (imageContext (imageText imageResult))
        (str ''This question was extracted from an image.'')"
proof -
  have calls: "snd (snd (askImage imageToBase64 processImage resolveQuery fs file)) =
      [(JString (imageText imageResult),
        JObject [(str ''context'', JString (imageContext (imageText imageResult)))])]"
    using assms
    by (simp add: askImage_def askImage_try_def readFileSync_def unlinkSync_def existsSync_def
        Let_def split: sum.splits)
  have inc: "includes_str (imageContext (imageText imageResult)) (imageText imageResult)"
    unfolding includes_str_iff imageContext_def by (metis append_Nil2)
  have "str ''This question was extracted from an image. Original extracted text: '' =
      str ''This question was extracted from an image.'' @ str '' Original extracted text: ''"
    by (simp add: str_def)
  then have start: "startsWith (imageContext (imageText imageResult))
        (str ''This question was extracted from an image.'')"
    unfolding startsWith_iff imageContext_def by (metis append_assoc)
  from calls inc start show ?thesis by (simp add: imageContext_def)
qed

text \<open>The theorem at an upload whose text is \<^verbatim>\<open>Solve 2x + 3 = 7\<close>.\<close>

theorem askImage_context_witness:
  "stubFs (path stubFile) = Some [0]
   \<and> stubProcessImage (stubImageToBase64 [0] (mimetype stubFile)) (mimetype stubFile) =
       Inr \<lparr>imageSuccess = True, imageText = str ''Solve 2x + 3 = 7'', imageError = JUndefined\<rparr>
   \<and> snd (snd (askImage stubImageToBase64 stubProcessImage stubResolver stubFs (Some stubFile))) =
       [(JString (str ''Solve 2x + 3 = 7''),
         JObject [(str ''context'',
           JString (str ''This question was extracted from an image. Original extracted text: Solve 2x + 3 = 7''))])]"
proof -
  have fs: "stubFs (path stubFile) = Some [0]" by (simp add: stubFs_def stubFile_def)
  have ocr: "stubProcessImage (stubImageToBase64 [0] (mimetype stubFile)) (mimetype stubFile) =
       Inr \<lparr>imageSuccess = True, imageText = str ''Solve 2x + 3 = 7'', imageError = JUndefined\<rparr>"
    by (simp add: stubProcessImage_def)
  have ctx: "imageContext (str ''Solve 2x + 3 = 7'') =
      str ''This question was extracted from an image. Original extracted text: Solve 2x + 3 = 7''"
    by (simp add: imageContext_def str_def)
  show ?thesis
    using askImage_context [of "Some stubFile" stubFile stubFs "[0]" stubProcessImage
        stubImageToBase64
        "\<lparr>imageSuccess = True, imageText = str ''Solve 2x + 3 = 7'', imageError = JUndefined\<rparr>"
        stubResolver]
      fs ocr ctx
    by simp
qed

end
